theory Spec2Isabelle
  imports Main
begin

section \<open>Data model\<close>

text \<open>
  The chat client keeps its conversation as a Python list of dictionaries
  \<^verbatim>\<open>{"role": ..., "content": ...}\<close>. Both entries are Python strings; the roles the
  code writes are \<^verbatim>\<open>"user"\<close> and \<^verbatim>\<open>"assistant"\<close>, and it compares them as strings.
  \<open>len\<close> of a Python string is its number of characters, here the length of the list.
\<close>

record message =
  role :: string
  content :: string

text \<open>An exception object; its argument is the text that \<^verbatim>\<open>str(e)\<close> returns.\<close>

datatype exception = Exception string

fun str :: "exception \<Rightarrow> string" where
  "str (Exception text) = text"

text \<open>The Python values that the worker hands to a signal's \<^verbatim>\<open>emit\<close>.\<close>

datatype pyobj = Str string | Exc exception

text \<open>
  A Python generator, seen from its consumer: it yields a value and continues, it is
  exhausted (the \<^verbatim>\<open>for\<close> loop ends), or it raises. The datatype is finite, as the
  stream of one chat request is.
\<close>

datatype 'a generator = Yield 'a "'a generator" | StopIteration | Raise exception

text \<open>One element of the stream of \<^verbatim>\<open>ollama.chat(..., stream=True)\<close>: \<^verbatim>\<open>chunk['message']\<close>.\<close>

record chunk =
  chunk_message :: message

text \<open>The model service: \<^verbatim>\<open>ollama.chat(model=..., messages=..., stream=True)\<close>.\<close>

type_synonym ollama = "string \<Rightarrow> message list \<Rightarrow> chunk generator"

text \<open>The three signals of \<^verbatim>\<open>ResponseThread\<close>, each with the argument of its \<^verbatim>\<open>emit\<close>.\<close>

datatype signal =
  response_chunk_received pyobj
| response_finished pyobj
| error_occurred pyobj

text \<open>What the code does to the \<^verbatim>\<open>QTextEdit\<close> of the chat log since it was last cleared.\<close>

datatype display_op = Append string | InsertPlainText string | EnsureCursorVisible

text \<open>
  Python lists are objects: \<^verbatim>\<open>append\<close> and \<^verbatim>\<open>pop\<close> change the object in place, an
  assignment binds a name to an object, and \<^verbatim>\<open>copy()\<close> makes a new object. The store
  maps a reference to the list it holds; \<open>next_ref\<close> is the next unused reference.
\<close>

type_synonym ref = nat

record response_thread =
  model_name :: string
  t_messages :: ref
  isRunning :: bool

text \<open>
  The fields of \<^verbatim>\<open>MainWindow\<close> that the chat pipeline reads or writes, with the store of
  list objects. \<open>message_boxes\<close> records the \<^verbatim>\<open>QMessageBox.critical\<close> dialogs shown
  (title and text), \<open>status_bar\<close> the text of the status bar.
\<close>

record main_window =
  heap :: "ref \<Rightarrow> message list"
  next_ref :: ref
  messages :: ref
  assistant_response :: string
  thread :: "response_thread option"
  selected_model :: string
  context_length :: int
  input_field :: string
  chat_display :: "display_op list"
  message_boxes :: "(string \<times> string) list"
  status_bar :: string

abbreviation msgs :: "main_window \<Rightarrow> message list" where
  "msgs s \<equiv> heap s (messages s)"

section \<open>The conversation: trimming and the last user message\<close>

text \<open>\<^verbatim>\<open>sum(len(msg["content"]) for msg in self.messages)\<close>; Python integers are unbounded.\<close>

definition sum_len :: "message list \<Rightarrow> int" where
  "sum_len ms = sum_list (map (\<lambda>msg. int (length (content msg))) ms)"

text \<open>
  The loop of \<^verbatim>\<open>trim_messages\<close> (src/quilLlama.py, src/streamchatContextAdder.py):
  \<^verbatim>\<open>
  while total_length > self.context_length and len(self.messages) > 1:
      removed_message = self.messages.pop(0)
      total_length -= len(removed_message["content"])
  \<close>
  The guard keeps \<^verbatim>\<open>pop(0)\<close> away from the empty list.
\<close>

function trim_loop :: "int \<Rightarrow> int \<Rightarrow> message list \<Rightarrow> message list" where
  "trim_loop total_length ctx ms =
     (if total_length > ctx \<and> length ms > 1
      then trim_loop (total_length - int (length (content (hd ms)))) ctx (tl ms)
      else ms)"
  by pat_completeness auto
termination
  by (relation "measure (\<lambda>(total_length, ctx, ms). length ms)") auto

declare trim_loop.simps [simp del]

definition trim :: "int \<Rightarrow> message list \<Rightarrow> message list" where
  "trim ctx ms = trim_loop (sum_len ms) ctx ms"

definition trim_messages :: "main_window \<Rightarrow> main_window" where
  "trim_messages s =
     s\<lparr>heap := (heap s)(messages s := trim (context_length s) (msgs s))\<rparr>"

text \<open>
  \<^verbatim>\<open>get_last_user_message\<close> (src/QtOllama-main-quilly/quilLlama.py):
  \<^verbatim>\<open>
  for msg in reversed(self.messages):
      if msg['role'] == 'user':
          return msg['content']
  return ""
  \<close>
\<close>

fun first_user :: "message list \<Rightarrow> string" where
  "first_user [] = ''''"
| "first_user (msg # rest) = (if role msg = ''user'' then content msg else first_user rest)"

definition get_last_user_message :: "main_window \<Rightarrow> string" where
  "get_last_user_message s = first_user (rev (msgs s))"

section \<open>The streaming client and the response worker\<close>

text \<open>
  \<^verbatim>\<open>ollama_generator\<close> yields \<^verbatim>\<open>chunk['message']['content']\<close> for every chunk of the
  stream; an exception of the stream is logged and raised again.
\<close>

fun contents :: "chunk generator \<Rightarrow> string generator" where
  "contents (Yield c g) = Yield (content (chunk_message c)) (contents g)"
| "contents StopIteration = StopIteration"
| "contents (Raise e) = Raise e"

definition ollama_generator :: "ollama \<Rightarrow> string \<Rightarrow> message list \<Rightarrow> string generator" where
  "ollama_generator chat model msgs_arg = contents (chat model msgs_arg)"

text \<open>
  \<^verbatim>\<open>ResponseThread.run\<close> (src/quilLlama.py, src/streamchatContextAdder.py): the list of
  the signals it emits, in order.
  \<^verbatim>\<open>
  response = ""
  try:
      for chunk in ollama_generator(self.model_name, self.messages):
          response += chunk
          self.response_chunk_received.emit(chunk)
      self.response_finished.emit(response)
  except Exception as e:
      self.error_occurred.emit(str(e))
  \<close>
\<close>

fun run_loop :: "string \<Rightarrow> string generator \<Rightarrow> signal list" where
  "run_loop response (Yield c g) = response_chunk_received (Str c) # run_loop (response @ c) g"
| "run_loop response StopIteration = [response_finished (Str response)]"
| "run_loop response (Raise e) = [error_occurred (Str (str e))]"

definition run :: "ollama \<Rightarrow> (ref \<Rightarrow> message list) \<Rightarrow> response_thread \<Rightarrow> signal list" where
  "run chat h t = run_loop '''' (ollama_generator chat (model_name t) (h (t_messages t)))"

text \<open>
  \<^verbatim>\<open>ResponseThread.run\<close> of src/QtOllama-main-quilly/quilLlama.py differs in its last
  line, \<^verbatim>\<open>self.error_occurred.emit(e)\<close>: the argument is the exception object.
\<close>

fun run_loop_quilly :: "string \<Rightarrow> string generator \<Rightarrow> signal list" where
  "run_loop_quilly response (Yield c g) =
     response_chunk_received (Str c) # run_loop_quilly (response @ c) g"
| "run_loop_quilly response StopIteration = [response_finished (Str response)]"
| "run_loop_quilly response (Raise e) = [error_occurred (Exc e)]"

definition run_quilly :: "ollama \<Rightarrow> (ref \<Rightarrow> message list) \<Rightarrow> response_thread \<Rightarrow> signal list" where
  "run_quilly chat h t =
     run_loop_quilly '''' (ollama_generator chat (model_name t) (h (t_messages t)))"

text \<open>What an in-flight worker sends to the model service: the arguments of its one call.\<close>

definition request :: "(ref \<Rightarrow> message list) \<Rightarrow> response_thread \<Rightarrow> string \<times> message list" where
  "request h t = (model_name t, h (t_messages t))"

text \<open>
  \<^verbatim>\<open>ResponseThread.__init__(model_name, messages)\<close>: \<^verbatim>\<open>self.messages = messages.copy()\<close>
  is a new list object with the elements of the argument.
\<close>

definition ResponseThread :: "string \<Rightarrow> ref \<Rightarrow> main_window \<Rightarrow> response_thread \<times> main_window" where
  "ResponseThread model msgs_ref s =
     (\<lparr>model_name = model, t_messages = next_ref s, isRunning = False\<rparr>,
      s\<lparr>heap := (heap s)(next_ref s := heap s msgs_ref), next_ref := Suc (next_ref s)\<rparr>)"

section \<open>The controller\<close>

definition display_message :: "string \<Rightarrow> string \<Rightarrow> main_window \<Rightarrow> main_window" where
  "display_message r c s =
     (if r = ''user''
      then s\<lparr>chat_display := chat_display s @ [Append (''<b>User:</b> '' @ c)]\<rparr>
      else s\<lparr>chat_display := chat_display s @ [Append (''<b>Assistant:</b> '' @ c)]\<rparr>)"

definition update_context_length :: "int \<Rightarrow> main_window \<Rightarrow> main_window" where
  "update_context_length v s = s\<lparr>context_length := v\<rparr>"

definition model_changed :: "string \<Rightarrow> main_window \<Rightarrow> main_window" where
  "model_changed text s = s\<lparr>selected_model := text\<rparr>"

text \<open>\<^verbatim>\<open>self.messages.append(msg)\<close>: the list object the field refers to grows in place.\<close>

definition messages_append :: "message \<Rightarrow> main_window \<Rightarrow> main_window" where
  "messages_append msg s = s\<lparr>heap := (heap s)(messages s := msgs s @ [msg])\<rparr>"

text \<open>
  The construction and start of the worker, the last five lines of \<^verbatim>\<open>send_message\<close>.
  Connecting the three signals is the function \<open>deliver\<close> below.
\<close>

definition start_thread :: "main_window \<Rightarrow> main_window" where
  "start_thread s =
     (case ResponseThread (selected_model s) (messages s) s of
        (t, s') \<Rightarrow> s'\<lparr>thread := Some (t\<lparr>isRunning := True\<rparr>)\<rparr>)"

text \<open>
  \<^verbatim>\<open>send_message\<close> of src/quilLlama.py and src/streamchatContextAdder.py:
  \<^verbatim>\<open>
  prompt = self.input_field.text()
  if prompt:
      self.messages.append({"role": "user", "content": prompt})
      self.display_message("user", prompt)
      self.input_field.clear()
      self.assistant_response = ""
      self.chat_display.append("<b>Assistant:</b> ")
      self.trim_messages()
      self.thread = ResponseThread(self.selected_model, self.messages)
      ... connect ...
      self.thread.start()
  \<close>
\<close>

definition send_message :: "main_window \<Rightarrow> main_window" where
  "send_message s =
     (let prompt = input_field s in
      if prompt \<noteq> [] then
        let s1 = messages_append \<lparr>role = ''user'', content = prompt\<rparr> s;
            s2 = display_message ''user'' prompt s1;
            s3 = s2\<lparr>input_field := []\<rparr>;
            s4 = s3\<lparr>assistant_response := []\<rparr>;
            s5 = s4\<lparr>chat_display := chat_display s4 @ [Append ''<b>Assistant:</b> '']\<rparr>;
            s6 = trim_messages s5
        in start_thread s6
      else s)"

text \<open>
  \<^verbatim>\<open>send_message\<close> of src/QtOllama-main-quilly/quilLlama.py: the same lines without the
  call of \<^verbatim>\<open>trim_messages\<close>.
\<close>

definition send_message_quilly :: "main_window \<Rightarrow> main_window" where
  "send_message_quilly s =
     (let prompt = input_field s in
      if prompt \<noteq> [] then
        let s1 = messages_append \<lparr>role = ''user'', content = prompt\<rparr> s;
            s2 = display_message ''user'' prompt s1;
            s3 = s2\<lparr>input_field := []\<rparr>;
            s4 = s3\<lparr>assistant_response := []\<rparr>;
            s5 = s4\<lparr>chat_display := chat_display s4 @ [Append ''<b>Assistant:</b> '']\<rparr>
        in start_thread s5
      else s)"

definition handle_response_chunk :: "string \<Rightarrow> main_window \<Rightarrow> main_window" where
  "handle_response_chunk c s =
     s\<lparr>assistant_response := assistant_response s @ c,
       chat_display := chat_display s @ [InsertPlainText c, EnsureCursorVisible]\<rparr>"

definition handle_response_finished :: "main_window \<Rightarrow> main_window" where
  "handle_response_finished s =
     messages_append \<lparr>role = ''assistant'', content = assistant_response s\<rparr> s"

definition handle_error :: "string \<Rightarrow> main_window \<Rightarrow> main_window" where
  "handle_error error_message s =
     s\<lparr>message_boxes := message_boxes s @ [(''Error'', ''An error occurred: '' @ error_message)]\<rparr>"

text \<open>
  \<^verbatim>\<open>stop_chat\<close>:
  \<^verbatim>\<open>
  if self.thread and self.thread.isRunning():
      self.thread.terminate()
      self.thread.wait()
  self.messages = []
  self.chat_display.clear()
  \<close>
  The assignment binds the field to a new, empty list object.
\<close>

definition stop_chat :: "main_window \<Rightarrow> main_window" where
  "stop_chat s =
     (let s1 = (case thread s of
                  Some t \<Rightarrow> if isRunning t then s\<lparr>thread := Some (t\<lparr>isRunning := False\<rparr>)\<rparr> else s
                | None \<Rightarrow> s);
          s2 = s1\<lparr>heap := (heap s1)(next_ref s1 := []), messages := next_ref s1,
                  next_ref := Suc (next_ref s1)\<rparr>
      in s2\<lparr>chat_display := []\<rparr>)"

definition restart_chat :: "main_window \<Rightarrow> main_window" where
  "restart_chat s = stop_chat s"

text \<open>
  The connections made in \<^verbatim>\<open>send_message\<close>: a signal calls its slot on the control
  thread. The three signals are declared \<^verbatim>\<open>pyqtSignal(str)\<close> and the slot
  \<^verbatim>\<open>handle_response_finished\<close> of src/quilLlama.py takes no argument. A signal declared
  for \<^verbatim>\<open>str\<close> calls no slot with another object.
\<close>

fun deliver :: "signal \<Rightarrow> main_window \<Rightarrow> main_window" where
  "deliver (response_chunk_received (Str c)) s = handle_response_chunk c s"
| "deliver (response_finished (Str r)) s = handle_response_finished s"
| "deliver (error_occurred (Str m)) s = handle_error m s"
| "deliver _ s = s"

text \<open>
  The worker of the state runs to its end: its signals reach the control thread in the
  order of their emission, and the thread is no longer running.
\<close>

definition finish_thread :: "main_window \<Rightarrow> main_window" where
  "finish_thread s =
     (case thread s of
        Some t \<Rightarrow> s\<lparr>thread := Some (t\<lparr>isRunning := False\<rparr>)\<rparr>
      | None \<Rightarrow> s)"

definition worker_round :: "ollama \<Rightarrow> main_window \<Rightarrow> main_window" where
  "worker_round chat s =
     (case thread s of
        Some t \<Rightarrow> finish_thread (fold deliver (run chat (heap s) t) s)
      | None \<Rightarrow> s)"

text \<open>A stream that yields the given chunks and then ends as the second argument says.\<close>

fun yields :: "'a list \<Rightarrow> 'a generator \<Rightarrow> 'a generator" where
  "yields [] g = g"
| "yields (x # xs) g = Yield x (yields xs g)"

section \<open>Construction of the window and the actions on it\<close>

text \<open>
  \<^verbatim>\<open>load_models\<close>: \<^verbatim>\<open>ollama.list()\<close> gives the model names or raises; the first name
  becomes the selected model, a failure is shown in a message box.
\<close>

definition load_models :: "exception + string list \<Rightarrow> main_window \<Rightarrow> main_window" where
  "load_models listing s =
     (case listing of
        Inr model_names \<Rightarrow>
          if model_names \<noteq> [] then s\<lparr>selected_model := hd model_names\<rparr> else s
      | Inl e \<Rightarrow>
          s\<lparr>message_boxes := message_boxes s @ [(''Error'', ''Failed to load models: '' @ str e)]\<rparr>)"

text \<open>
  \<^verbatim>\<open>MainWindow.__init__\<close>: an empty conversation (a new list object), no worker, an empty
  accumulator; the context length starts at 4096 in src/quilLlama.py and
  src/streamchatContextAdder.py, at 8192 in src/QtOllama-main-quilly/quilLlama.py.
\<close>

definition MainWindow_fields :: "int \<Rightarrow> main_window" where
  "MainWindow_fields ctx =
     \<lparr>heap = (\<lambda>r. []), next_ref = 1, messages = 0, assistant_response = [],
      thread = None, selected_model = [], context_length = ctx, input_field = [],
      chat_display = [], message_boxes = [], status_bar = []\<rparr>"

definition MainWindow :: "exception + string list \<Rightarrow> main_window" where
  "MainWindow listing = load_models listing (MainWindow_fields 4096)"

definition MainWindow_quilly :: "exception + string list \<Rightarrow> main_window" where
  "MainWindow_quilly listing = load_models listing (MainWindow_fields 8192)"

text \<open>
  \<^verbatim>\<open>perform_ai_analysis\<close> (src/QtOllama-main-quilly/quilLlama.py). The selection of the
  chat display is an argument: \<open>None\<close> when \<^verbatim>\<open>hasSelection()\<close> is false.
  \<^verbatim>\<open>
  if text_cursor.hasSelection():
      text = text_cursor.selectedText()
  else:
      text = self.get_last_user_message()
      if not text:
          self.update_status("Please select text or send a message first.")
          return
  prompt = f"Please perform a {analysis_type} on the following text: '{text}'"
  self.messages.append({"role": "user", "content": prompt})
  self.display_message("user", prompt)
  self.assistant_response = ""
  self.chat_display.append("<b>Assistant:</b> ")
  self.trim_messages()
  self.thread = ResponseThread(self.selected_model, self.messages)
  ...
  \<close>
  Modelled from the spec: \<^verbatim>\<open>trim_messages\<close> is called here, but that file does not
  define it and its base class \<^verbatim>\<open>FramelessWindow\<close> is not among the sources; the call is
  taken to be the \<open>trim\<close> of the specification, which is \<open>trim_messages\<close> above.
\<close>

definition analysis_prompt :: "string \<Rightarrow> string \<Rightarrow> string" where
  "analysis_prompt analysis_type text =
     ''Please perform a '' @ analysis_type @ '' on the following text: '' @ [CHR 0x27] @ text
       @ [CHR 0x27]"

definition perform_ai_analysis :: "string \<Rightarrow> string option \<Rightarrow> main_window \<Rightarrow> main_window" where
  "perform_ai_analysis analysis_type selection s =
     (let text = (case selection of Some selected \<Rightarrow> selected | None \<Rightarrow> get_last_user_message s)
      in if selection = None \<and> text = []
         then s\<lparr>status_bar := ''Please select text or send a message first.''\<rparr>
         else
           let prompt = analysis_prompt analysis_type text;
               s1 = messages_append \<lparr>role = ''user'', content = prompt\<rparr> s;
               s2 = display_message ''user'' prompt s1;
               s3 = s2\<lparr>assistant_response := []\<rparr>;
               s4 = s3\<lparr>chat_display := chat_display s3 @ [Append ''<b>Assistant:</b> '']\<rparr>;
               s5 = trim_messages s4
           in start_thread s5)"

text \<open>
  Everything that can happen to the window on the control thread: the user edits the
  input field, a button or menu entry calls a method, a signal of a worker calls its slot.
\<close>

datatype action =
  Edit string
| SendMessage
| SendMessageQuilly
| PerformAiAnalysis string "string option"
| HandleResponseChunk string
| HandleResponseFinished
| HandleError string
| StopChat
| RestartChat
| ModelChanged string
| UpdateContextLength int

fun act :: "action \<Rightarrow> main_window \<Rightarrow> main_window" where
  "act (Edit text) s = s\<lparr>input_field := text\<rparr>"
| "act SendMessage s = send_message s"
| "act SendMessageQuilly s = send_message_quilly s"
| "act (PerformAiAnalysis analysis_type selection) s = perform_ai_analysis analysis_type selection s"
| "act (HandleResponseChunk c) s = handle_response_chunk c s"
| "act HandleResponseFinished s = handle_response_finished s"
| "act (HandleError m) s = handle_error m s"
| "act StopChat s = stop_chat s"
| "act RestartChat s = restart_chat s"
| "act (ModelChanged text) s = model_changed text s"
| "act (UpdateContextLength v) s = update_context_length v s"

definition acts :: "action list \<Rightarrow> main_window \<Rightarrow> main_window" where
  "acts as s = fold act as s"

section \<open>Properties of trimming\<close>

lemma sum_len_nonneg: "0 \<le> sum_len ms"
  by (induction ms) (auto simp: sum_len_def)

lemma sum_len_tl: "ms \<noteq> [] \<Longrightarrow> sum_len (tl ms) = sum_len ms - int (length (content (hd ms)))"
  by (cases ms) (auto simp: sum_len_def)

lemma sum_len_last_le: "ms \<noteq> [] \<Longrightarrow> int (length (content (last ms))) \<le> sum_len ms"
  by (induction ms) (auto simp: sum_len_def)

lemma trim_loop_step:
  "c < t \<Longrightarrow> 1 < length ms \<Longrightarrow>
   trim_loop t c ms = trim_loop (t - int (length (content (hd ms)))) c (tl ms)"
  by (subst trim_loop.simps) simp

lemma trim_loop_stop: "\<not> (c < t \<and> 1 < length ms) \<Longrightarrow> trim_loop t c ms = ms"
  by (subst trim_loop.simps) auto

lemma trim_loop_nonempty: "ms \<noteq> [] \<Longrightarrow> trim_loop t c ms \<noteq> []"
proof (induction t c ms rule: trim_loop.induct)
  case (1 t c ms)
  show ?case
  proof (cases "c < t \<and> 1 < length ms")
    case True
    then have "tl ms \<noteq> []" by (cases ms) auto
    then have "trim_loop (t - int (length (content (hd ms)))) c (tl ms) \<noteq> []"
      using "1.IH" True by blast
    then show ?thesis using True by (simp add: trim_loop_step)
  next
    case False
    then show ?thesis using "1.prems" by (simp add: trim_loop_stop)
  qed
qed

lemma trim_loop_suffix: "\<exists>k. k \<le> length ms - 1 \<and> trim_loop t c ms = drop k ms"
proof (induction t c ms rule: trim_loop.induct)
  case (1 t c ms)
  show ?case
  proof (cases "c < t \<and> 1 < length ms")
    case True
    then obtain k where k: "k \<le> length (tl ms) - 1"
      "trim_loop (t - int (length (content (hd ms)))) c (tl ms) = drop k (tl ms)"
      using "1.IH" by blast
    have "drop k (tl ms) = drop (Suc k) ms" by (simp add: drop_Suc)
    moreover have "Suc k \<le> length ms - 1" using k(1) True by auto
    ultimately have "Suc k \<le> length ms - 1 \<and> trim_loop t c ms = drop (Suc k) ms"
      using k(2) True by (simp add: trim_loop_step)
    then show ?thesis by blast
  next
    case False
    then have "0 \<le> length ms - 1 \<and> trim_loop t c ms = drop 0 ms"
      by (simp add: trim_loop_stop)
    then show ?thesis by blast
  qed
qed

lemma trim_loop_fits:
  "t = sum_len ms \<Longrightarrow> sum_len (trim_loop t c ms) \<le> c \<or> length (trim_loop t c ms) \<le> 1"
proof (induction t c ms rule: trim_loop.induct)
  case (1 t c ms)
  show ?case
  proof (cases "c < t \<and> 1 < length ms")
    case True
    then have "ms \<noteq> []" by auto
    then have "t - int (length (content (hd ms))) = sum_len (tl ms)"
      using "1.prems" by (simp add: sum_len_tl)
    then have "sum_len (trim_loop (t - int (length (content (hd ms)))) c (tl ms)) \<le> c
        \<or> length (trim_loop (t - int (length (content (hd ms)))) c (tl ms)) \<le> 1"
      using "1.IH" True by blast
    then show ?thesis using True by (simp add: trim_loop_step)
  next
    case False
    then have "trim_loop t c ms = ms" by (simp add: trim_loop_stop)
    then show ?thesis using False "1.prems" by auto
  qed
qed

lemma trim_loop_stable:
  "sum_len ms \<le> c \<or> length ms \<le> 1 \<Longrightarrow> trim_loop (sum_len ms) c ms = ms"
  by (rule trim_loop_stop) auto

lemma trim_loop_last_alone:
  "t = sum_len ms \<Longrightarrow> ms \<noteq> [] \<Longrightarrow> c < int (length (content (last ms))) \<Longrightarrow>
   trim_loop t c ms = [last ms]"
proof (induction t c ms rule: trim_loop.induct)
  case (1 t c ms)
  have big: "c < t" using "1.prems" sum_len_last_le [of ms] by simp
  show ?case
  proof (cases "1 < length ms")
    case True
    then have ne: "tl ms \<noteq> []" by (cases ms) auto
    then have l: "last (tl ms) = last ms" using "1.prems"(2) by (cases ms) auto
    have "t - int (length (content (hd ms))) = sum_len (tl ms)"
      using "1.prems" by (simp add: sum_len_tl)
    then have "trim_loop (t - int (length (content (hd ms)))) c (tl ms) = [last (tl ms)]"
      using "1.IH" True big ne l "1.prems"(3) by simp
    then show ?thesis using True big l by (simp add: trim_loop_step)
  next
    case False
    then have "ms = [last ms]" using "1.prems"(2) by (cases ms) auto
    then show ?thesis using False by (simp add: trim_loop_stop)
  qed
qed

text \<open>
  C2 (amended). For every budget \<open>B\<close> and every non-empty message sequence \<open>ms\<close>,
  \<open>trim B\<close> leaves at least one message, what it leaves is a contiguous suffix of \<open>ms\<close>
  in the original order, and the character counts of the messages it leaves sum to at
  most \<open>B\<close>, unless the most recent message alone is longer than \<open>B\<close>: then that message
  alone remains.
\<close>

theorem trim_keeps_suffix_within_budget:
  assumes "ms \<noteq> []"
  shows "1 \<le> length (trim B ms)
       \<and> (\<exists>k. k < length ms \<and> trim B ms = drop k ms)
       \<and> (if B < int (length (content (last ms)))
          then trim B ms = [last ms]
          else sum_len (trim B ms) \<le> B)"
proof -
  have a: "1 \<le> length (trim B ms)"
    using trim_loop_nonempty [OF assms, of "sum_len ms" B]
    by (cases "trim B ms") (auto simp: trim_def)
  obtain k where k: "k \<le> length ms - 1" "trim B ms = drop k ms"
    using trim_loop_suffix [of ms "sum_len ms" B] by (auto simp: trim_def)
  from k(1) assms have "k < length ms" by (cases ms) auto
  with k(2) have b: "\<exists>k. k < length ms \<and> trim B ms = drop k ms" by blast
  have c: "if B < int (length (content (last ms)))
          then trim B ms = [last ms]
          else sum_len (trim B ms) \<le> B"
  proof (cases "B < int (length (content (last ms)))")
    case True
    then show ?thesis using trim_loop_last_alone [OF refl assms, of B] by (simp add: trim_def)
  next
    case False
    have "sum_len (trim B ms) \<le> B"
    proof (cases "length (trim B ms) \<le> 1")
      case True
      with a have "length (drop k ms) = 1" using k by simp
      moreover have "drop k ms \<noteq> []" using a k by auto
      then have "last (drop k ms) = last ms" by simp
      ultimately have "drop k ms = [last ms]"
        by (cases "drop k ms") auto
      with k False show ?thesis by (simp add: sum_len_def)
    next
      case False
      then show ?thesis using trim_loop_fits [OF refl, of ms B] by (simp add: trim_def)
    qed
    with False show ?thesis by simp
  qed
  from a b c show ?thesis by blast
qed

text \<open>
  The scenario of the specification: budget 10, a user message of 5 characters and an
  assistant message of 12. The first message goes, the second stays although it is
  longer than the budget.
\<close>

theorem trim_keeps_suffix_within_budget_witness:
  "1 \<le> length (trim 10 [\<lparr>role = ''user'', content = ''12345''\<rparr>,
                         \<lparr>role = ''assistant'', content = ''678901234567''\<rparr>])
   \<and> trim 10 [\<lparr>role = ''user'', content = ''12345''\<rparr>,
               \<lparr>role = ''assistant'', content = ''678901234567''\<rparr>]
     = [\<lparr>role = ''assistant'', content = ''678901234567''\<rparr>]"
  using trim_keeps_suffix_within_budget
    [of "[\<lparr>role = ''user'', content = ''12345''\<rparr>,
          \<lparr>role = ''assistant'', content = ''678901234567''\<rparr>]" 10]
  by simp

text \<open>
  C5. Trimming is idempotent: for every budget and every message sequence, trimming a
  second time with the same budget changes nothing. (It is a function of the budget and
  the sequence, hence deterministic.)
\<close>

theorem trim_idempotent: "trim B (trim B ms) = trim B ms"
  using trim_loop_fits [OF refl, of ms B] trim_loop_stable [of "trim B ms" B]
  by (simp add: trim_def)

text \<open>
  C2 as stated, for every message sequence, fails on the empty conversation: nothing is
  left of it.
\<close>

theorem trim_empty_counterexample: "\<not> (1 \<le> length (trim 10 []))"
  by (simp add: trim_def trim_loop_stop)

section \<open>Sending\<close>

lemma start_thread_eq:
  "start_thread s =
     s\<lparr>heap := (heap s)(next_ref s := msgs s), next_ref := Suc (next_ref s),
       thread := Some \<lparr>model_name = selected_model s, t_messages = next_ref s, isRunning = True\<rparr>\<rparr>"
  by (simp add: start_thread_def ResponseThread_def)

lemma send_message_eq:
  "input_field s \<noteq> [] \<Longrightarrow>
   send_message s =
     s\<lparr>heap := (heap s)(messages s := trim (context_length s) (msgs s @ [\<lparr>role = ''user'', content = input_field s\<rparr>]),
                      next_ref s := trim (context_length s) (msgs s @ [\<lparr>role = ''user'', content = input_field s\<rparr>])),
       next_ref := Suc (next_ref s),
       thread := Some \<lparr>model_name = selected_model s, t_messages = next_ref s, isRunning = True\<rparr>,
       input_field := [],
       assistant_response := [],
       chat_display := chat_display s @ [Append (''<b>User:</b> '' @ input_field s), Append ''<b>Assistant:</b> '']\<rparr>"
  by (simp add: send_message_def start_thread_eq trim_messages_def messages_append_def
      display_message_def Let_def)

lemma send_message_quilly_eq:
  "input_field s \<noteq> [] \<Longrightarrow>
   send_message_quilly s =
     s\<lparr>heap := (heap s)(messages s := msgs s @ [\<lparr>role = ''user'', content = input_field s\<rparr>],
                      next_ref s := msgs s @ [\<lparr>role = ''user'', content = input_field s\<rparr>]),
       next_ref := Suc (next_ref s),
       thread := Some \<lparr>model_name = selected_model s, t_messages = next_ref s, isRunning = True\<rparr>,
       input_field := [],
       assistant_response := [],
       chat_display := chat_display s @ [Append (''<b>User:</b> '' @ input_field s), Append ''<b>Assistant:</b> '']\<rparr>"
  by (simp add: send_message_quilly_def start_thread_eq messages_append_def
      display_message_def Let_def)

text \<open>
  C6. In every state, a send with an empty input field changes nothing: no message is
  appended, no worker is created or started, nothing is shown, and every field of the
  window and every list object is as before. No error is raised or reported.
\<close>

theorem send_message_empty_prompt:
  "input_field s = [] \<Longrightarrow> send_message s = s \<and> send_message_quilly s = s"
  by (simp add: send_message_def send_message_quilly_def)

theorem send_message_empty_prompt_witness:
  "send_message (MainWindow (Inr [''llama3''])) = MainWindow (Inr [''llama3''])"
  using send_message_empty_prompt [of "MainWindow (Inr [''llama3''])"]
  by (simp add: MainWindow_def MainWindow_fields_def load_models_def)

lemma trim_append_user:
  "\<exists>k. k \<le> length ms \<and> trim B (ms @ [m]) = drop k ms @ [m]"
proof -
  obtain k where k: "k \<le> length (ms @ [m]) - 1" "trim B (ms @ [m]) = drop k (ms @ [m])"
    using trim_loop_suffix [of "ms @ [m]" "sum_len (ms @ [m])" B] by (auto simp: trim_def)
  then have "k \<le> length ms \<and> trim B (ms @ [m]) = drop k ms @ [m]" by simp
  then show ?thesis by blast
qed

lemma trim_nonempty: "ms \<noteq> [] \<Longrightarrow> 1 \<le> length (trim B ms)"
  using trim_loop_nonempty [of ms "sum_len ms" B] by (cases "trim B ms") (auto simp: trim_def)

lemma trim_fits_or_single: "sum_len (trim B ms) \<le> B \<or> length (trim B ms) \<le> 1"
  using trim_loop_fits [OF refl, of ms B] by (simp add: trim_def)

lemma set_trim_subset: "set (trim B ms) \<subseteq> set ms"
proof -
  obtain k where "trim B ms = drop k ms"
    using trim_loop_suffix [of ms "sum_len ms" B] by (auto simp: trim_def)
  then show ?thesis by (simp add: set_drop_subset)
qed

text \<open>
  \<open>send_message\<close> of src/quilLlama.py and src/streamchatContextAdder.py: a prompt that is
  not empty is appended and shown, the accumulator is reset, the conversation is trimmed
  to the context length, and the worker is started on a copy of the trimmed conversation
  with the selected model. At that moment the characters of all messages sum to at
  most the context length, or one message is left.
\<close>

lemma send_message_trims_before_start:
  assumes "input_field s \<noteq> []"
  shows "\<exists>t. thread (send_message s) = Some t \<and> isRunning t
       \<and> request (heap (send_message s)) t = (selected_model s, msgs (send_message s))
       \<and> msgs (send_message s)
         = trim (context_length s) (msgs s @ [\<lparr>role = ''user'', content = input_field s\<rparr>])
       \<and> (sum_len (msgs (send_message s)) \<le> context_length (send_message s)
          \<or> length (msgs (send_message s)) = 1)
       \<and> assistant_response (send_message s) = []
       \<and> chat_display (send_message s)
         = chat_display s @ [Append (''<b>User:</b> '' @ input_field s), Append ''<b>Assistant:</b> '']"
proof -
  let ?ms = "msgs s @ [\<lparr>role = ''user'', content = input_field s\<rparr>]"
  have "1 \<le> length (trim (context_length s) ?ms)"
    using trim_nonempty [of ?ms "context_length s"] by simp
  then have "sum_len (trim (context_length s) ?ms) \<le> context_length s
      \<or> length (trim (context_length s) ?ms) = 1"
    using trim_fits_or_single [of "context_length s" ?ms] by auto
  moreover have "msgs (send_message s) = trim (context_length s) ?ms"
    and "context_length (send_message s) = context_length s"
    using assms by (simp_all add: send_message_eq)
  moreover have "thread (send_message s)
      = Some \<lparr>model_name = selected_model s, t_messages = next_ref s, isRunning = True\<rparr>"
    and "heap (send_message s) (next_ref s) = trim (context_length s) ?ms"
    and "assistant_response (send_message s) = []"
    and "chat_display (send_message s)
         = chat_display s @ [Append (''<b>User:</b> '' @ input_field s), Append ''<b>Assistant:</b> '']"
    using assms by (simp_all add: send_message_eq)
  ultimately show ?thesis by (simp add: request_def)
qed




section \<open>The worker and its signals\<close>

lemma run_loop_yields_stop:
  "run_loop r (yields fs StopIteration) =
     map (\<lambda>f. response_chunk_received (Str f)) fs @ [response_finished (Str (r @ concat fs))]"
  by (induction fs arbitrary: r) auto

lemma run_loop_yields_raise:
  "run_loop r (yields fs (Raise e)) =
     map (\<lambda>f. response_chunk_received (Str f)) fs @ [error_occurred (Str (str e))]"
  by (induction fs arbitrary: r) auto

lemma fold_deliver_chunks:
  "fold deliver (map (\<lambda>f. response_chunk_received (Str f)) fs) s =
     s\<lparr>assistant_response := assistant_response s @ concat fs,
       chat_display := chat_display s @ concat (map (\<lambda>f. [InsertPlainText f, EnsureCursorVisible]) fs)\<rparr>"
  by (induction fs arbitrary: s) (auto simp: handle_response_chunk_def)

text \<open>
  C1. Let a prompt be sent (the input field is not empty), and let the streaming client,
  called by the worker that the send started, yield the fragments \<open>fs\<close> and then end
  normally. Then the worker emits one chunk signal per fragment, in the order of
  arrival, followed by exactly one finished signal that carries the concatenation; and
  once the signals are handled the conversation is a suffix of the old one (what
  trimming kept), then the one new user message, then one new assistant message whose
  content is the concatenation of \<open>fs\<close>.
\<close>

theorem completed_stream_appends_one_exchange:
  assumes prompt: "input_field s \<noteq> []"
    and worker: "thread (send_message s) = Some t"
    and stream: "ollama_generator chat (model_name t) (heap (send_message s) (t_messages t))
                 = yields fs StopIteration"
  shows "run chat (heap (send_message s)) t
           = map (\<lambda>f. response_chunk_received (Str f)) fs @ [response_finished (Str (concat fs))]
       \<and> (\<exists>k. k \<le> length (msgs s)
            \<and> msgs (worker_round chat (send_message s))
              = drop k (msgs s) @ [\<lparr>role = ''user'', content = input_field s\<rparr>,
                                   \<lparr>role = ''assistant'', content = concat fs\<rparr>])"
proof -
  let ?u = "\<lparr>role = ''user'', content = input_field s\<rparr>"
  let ?s1 = "send_message s"
  have run: "run chat (heap ?s1) t
           = map (\<lambda>f. response_chunk_received (Str f)) fs @ [response_finished (Str (concat fs))]"
    using stream by (simp add: run_def run_loop_yields_stop)
  have acc: "assistant_response ?s1 = []" and m1: "msgs ?s1 = trim (context_length s) (msgs s @ [?u])"
    using prompt by (simp_all add: send_message_eq)
  have "msgs (worker_round chat ?s1) = msgs ?s1 @ [\<lparr>role = ''assistant'', content = concat fs\<rparr>]"
    using worker run acc
    by (simp add: worker_round_def fold_deliver_chunks handle_response_finished_def
        messages_append_def finish_thread_def)
  moreover obtain k where "k \<le> length (msgs s)" "trim (context_length s) (msgs s @ [?u]) = drop k (msgs s) @ [?u]"
    using trim_append_user by blast
  ultimately show ?thesis using run m1 by auto
qed

text \<open>
  The scenario of the specification: \<open>hello\<close> is sent to a new window and the stream
  yields \<open>Hi\<close>, \<open> there\<close>, \<open>!\<close>.
\<close>

theorem completed_stream_appends_one_exchange_witness:
  "msgs (worker_round
      (\<lambda>model ms. yields [\<lparr>chunk_message = \<lparr>role = ''assistant'', content = ''Hi''\<rparr>\<rparr>,
                           \<lparr>chunk_message = \<lparr>role = ''assistant'', content = '' there''\<rparr>\<rparr>,
                           \<lparr>chunk_message = \<lparr>role = ''assistant'', content = ''!''\<rparr>\<rparr>] StopIteration)
      (send_message ((MainWindow (Inr [''llama3'']))\<lparr>input_field := ''hello''\<rparr>)))
   = [\<lparr>role = ''user'', content = ''hello''\<rparr>, \<lparr>role = ''assistant'', content = ''Hi there!''\<rparr>]"
  using completed_stream_appends_one_exchange
    [of "(MainWindow (Inr [''llama3'']))\<lparr>input_field := ''hello''\<rparr>"
        "\<lparr>model_name = ''llama3'', t_messages = 1, isRunning = True\<rparr>"
        "\<lambda>model ms. yields [\<lparr>chunk_message = \<lparr>role = ''assistant'', content = ''Hi''\<rparr>\<rparr>,
                           \<lparr>chunk_message = \<lparr>role = ''assistant'', content = '' there''\<rparr>\<rparr>,
                           \<lparr>chunk_message = \<lparr>role = ''assistant'', content = ''!''\<rparr>\<rparr>] StopIteration"
        "[''Hi'', '' there'', ''!'']"]
  by (simp add: send_message_eq MainWindow_def MainWindow_fields_def load_models_def
      ollama_generator_def)

text \<open>
  The worker of src/quilLlama.py and src/streamchatContextAdder.py, when the stream raises
  after the fragments \<open>fs\<close>: the chunk signals of \<open>fs\<close>, then one error signal that carries
  \<open>str(e)\<close>, no finished signal; the store and the conversation stay as the send left
  them, and one message box shows the error.
\<close>

lemma failed_stream_leaves_conversation:
  assumes prompt: "input_field s \<noteq> []"
    and worker: "thread (send_message s) = Some t"
    and stream: "ollama_generator chat (model_name t) (heap (send_message s) (t_messages t))
                 = yields fs (Raise e)"
  shows "run chat (heap (send_message s)) t
           = map (\<lambda>f. response_chunk_received (Str f)) fs @ [error_occurred (Str (str e))]
       \<and> heap (worker_round chat (send_message s)) = heap (send_message s)
       \<and> messages (worker_round chat (send_message s)) = messages (send_message s)
       \<and> message_boxes (worker_round chat (send_message s))
         = message_boxes s @ [(''Error'', ''An error occurred: '' @ str e)]
       \<and> (\<exists>k. k \<le> length (msgs s)
            \<and> msgs (worker_round chat (send_message s))
              = drop k (msgs s) @ [\<lparr>role = ''user'', content = input_field s\<rparr>])"
proof -
  let ?u = "\<lparr>role = ''user'', content = input_field s\<rparr>"
  let ?s1 = "send_message s"
  have run: "run chat (heap ?s1) t
           = map (\<lambda>f. response_chunk_received (Str f)) fs @ [error_occurred (Str (str e))]"
    using stream by (simp add: run_def run_loop_yields_raise)
  have m1: "msgs ?s1 = trim (context_length s) (msgs s @ [?u])"
    and mb: "message_boxes ?s1 = message_boxes s"
    using prompt by (simp_all add: send_message_eq)
  have w: "heap (worker_round chat ?s1) = heap ?s1"
     "messages (worker_round chat ?s1) = messages ?s1"
     "message_boxes (worker_round chat ?s1) = message_boxes ?s1 @ [(''Error'', ''An error occurred: '' @ str e)]"
    using worker run
    by (simp_all add: worker_round_def fold_deliver_chunks handle_error_def finish_thread_def)
  obtain k where "k \<le> length (msgs s)" "trim (context_length s) (msgs s @ [?u]) = drop k (msgs s) @ [?u]"
    using trim_append_user by blast
  then show ?thesis using run m1 mb w by auto
qed

text \<open>
  C4. When the stream raises after some fragments, the worker is to emit the chunk
  signals of those fragments and then one error signal that carries a string. The worker of
  src/QtOllama-main-quilly/quilLlama.py, on a stream that yields \<open>Hi\<close> and then raises,
  hands the exception object itself to the signal declared for \<open>str\<close>, not its text;
  the worker of src/quilLlama.py, on the same stream, hands it the text.
\<close>

theorem quilly_run_emits_exception_object:
  "let chat = (\<lambda>model ms. Yield \<lparr>chunk_message = \<lparr>role = ''assistant'', content = ''Hi''\<rparr>\<rparr>
                              (Raise (Exception ''connection lost'')));
       s = send_message_quilly ((MainWindow_quilly (Inr [''llama3'']))\<lparr>input_field := ''hello''\<rparr>);
       t = \<lparr>model_name = ''llama3'', t_messages = 1, isRunning = True\<rparr>
   in thread s = Some t
    \<and> run_quilly chat (heap s) t
      = [response_chunk_received (Str ''Hi''), error_occurred (Exc (Exception ''connection lost''))]
    \<and> run chat (heap s) t
      = [response_chunk_received (Str ''Hi''), error_occurred (Str ''connection lost'')]"
  by (simp add: Let_def run_quilly_def run_def ollama_generator_def send_message_quilly_eq
      MainWindow_quilly_def MainWindow_fields_def load_models_def)

section \<open>Stopping\<close>

lemma stop_chat_fields:
  "heap (stop_chat s) = (heap s)(next_ref s := [])"
  "messages (stop_chat s) = next_ref s"
  "next_ref (stop_chat s) = Suc (next_ref s)"
  by (simp_all add: stop_chat_def Let_def split: option.splits)

lemma stop_chat_thread:
  "thread (stop_chat s) = map_option (\<lambda>t. t\<lparr>isRunning := False\<rparr>) (thread s)"
  by (cases "thread s") (auto simp: stop_chat_def Let_def)

text \<open>
  C7. In every state \<open>stop_chat\<close> leaves an empty conversation and a cleared display.
  Without a running worker (no worker at all, or one that has finished) the worker
  field is untouched, so the cancel step does nothing; in every case no worker is
  running afterwards.
\<close>

theorem stop_chat_clears:
  "msgs (stop_chat s) = [] \<and> chat_display (stop_chat s) = []
   \<and> ((\<forall>t. thread s = Some t \<longrightarrow> \<not> isRunning t) \<longrightarrow> thread (stop_chat s) = thread s)
   \<and> (\<forall>t. thread (stop_chat s) = Some t \<longrightarrow> \<not> isRunning t)"
  by (auto simp: stop_chat_def Let_def split: option.splits)

text \<open>
  A new window (no worker), and a window whose worker has just been started: both end with
  an empty conversation and a cleared display, the second with its worker terminated.
\<close>

theorem stop_chat_clears_witness:
  "msgs (stop_chat (MainWindow (Inr [''llama3'']))) = []
   \<and> chat_display (stop_chat (MainWindow (Inr [''llama3'']))) = []
   \<and> thread (stop_chat (MainWindow (Inr [''llama3'']))) = None
   \<and> msgs (stop_chat (send_message ((MainWindow (Inr [''llama3'']))\<lparr>input_field := ''hello''\<rparr>))) = []
   \<and> chat_display (stop_chat (send_message ((MainWindow (Inr [''llama3'']))\<lparr>input_field := ''hello''\<rparr>))) = []
   \<and> thread (stop_chat (send_message ((MainWindow (Inr [''llama3'']))\<lparr>input_field := ''hello''\<rparr>)))
     = Some \<lparr>model_name = ''llama3'', t_messages = 1, isRunning = False\<rparr>"
proof -
  let ?w = "MainWindow (Inr [''llama3''])"
  let ?s = "send_message (?w\<lparr>input_field := ''hello''\<rparr>)"
  have "thread ?w = None"
    by (simp add: MainWindow_def MainWindow_fields_def load_models_def)
  then have idle: "msgs (stop_chat ?w) = [] \<and> chat_display (stop_chat ?w) = [] \<and> thread (stop_chat ?w) = None"
    using stop_chat_clears [of ?w] by simp
  have "thread ?s = Some \<lparr>model_name = ''llama3'', t_messages = 1, isRunning = True\<rparr>"
    by (simp add: send_message_eq MainWindow_def MainWindow_fields_def load_models_def)
  then have "thread (stop_chat ?s) = Some \<lparr>model_name = ''llama3'', t_messages = 1, isRunning = False\<rparr>"
    by (simp add: stop_chat_thread)
  moreover have "msgs (stop_chat ?s) = [] \<and> chat_display (stop_chat ?s) = []"
    using stop_chat_clears [of ?s] by blast
  ultimately show ?thesis using idle by blast
qed

section \<open>The last user message\<close>

lemma first_user_found:
  "role msg = ''user'' \<Longrightarrow> \<forall>m\<in>set ms. role m \<noteq> ''user'' \<Longrightarrow>
   first_user (ms @ msg # rest) = content msg"
  by (induction ms) auto

lemma first_user_none: "\<forall>m\<in>set ms. role m \<noteq> ''user'' \<Longrightarrow> first_user ms = []"
  by (induction ms) auto

lemma first_user_empty_iff:
  "\<forall>m\<in>set ms. role m = ''user'' \<longrightarrow> content m \<noteq> [] \<Longrightarrow>
   first_user ms = [] \<longleftrightarrow> (\<forall>m\<in>set ms. role m \<noteq> ''user'')"
  by (induction ms) auto

text \<open>
  C8. \<open>get_last_user_message\<close> returns the content of the last message of the
  conversation whose role is \<open>user\<close> (the first one met from the end), and the empty
  string when there is none; on \<open>[user: a, assistant: b, user: c]\<close> it returns \<open>c\<close>.
\<close>

theorem get_last_user_message_scans_from_end:
  "(msgs s = before @ msg # rest \<and> role msg = ''user'' \<and> (\<forall>m\<in>set rest. role m \<noteq> ''user'')
      \<longrightarrow> get_last_user_message s = content msg)
   \<and> ((\<forall>m\<in>set (msgs s). role m \<noteq> ''user'') \<longrightarrow> get_last_user_message s = [])
   \<and> (msgs s = [\<lparr>role = ''user'', content = ''a''\<rparr>, \<lparr>role = ''assistant'', content = ''b''\<rparr>,
                  \<lparr>role = ''user'', content = ''c''\<rparr>]
      \<longrightarrow> get_last_user_message s = ''c'')"
proof -
  have a: "get_last_user_message s = content msg"
    if "msgs s = before @ msg # rest" "role msg = ''user''" "\<forall>m\<in>set rest. role m \<noteq> ''user''"
    using that first_user_found [of msg "rev rest" "rev before"]
    by (simp add: get_last_user_message_def)
  have b: "get_last_user_message s = []" if "\<forall>m\<in>set (msgs s). role m \<noteq> ''user''"
    using that first_user_none [of "rev (msgs s)"] by (simp add: get_last_user_message_def)
  have c: "get_last_user_message s = ''c''"
    if "msgs s = [\<lparr>role = ''user'', content = ''a''\<rparr>, \<lparr>role = ''assistant'', content = ''b''\<rparr>,
                  \<lparr>role = ''user'', content = ''c''\<rparr>]"
    using that by (simp add: get_last_user_message_def)
  from a b c show ?thesis by blast
qed

theorem get_last_user_message_scans_from_end_witness:
  "msgs (acts [Edit ''a'', SendMessageQuilly, HandleResponseChunk ''b'', HandleResponseFinished,
               Edit ''c'', SendMessageQuilly] (MainWindow_quilly (Inr [''llama3''])))
     = [\<lparr>role = ''user'', content = ''a''\<rparr>, \<lparr>role = ''assistant'', content = ''b''\<rparr>,
        \<lparr>role = ''user'', content = ''c''\<rparr>]
   \<and> get_last_user_message
       (acts [Edit ''a'', SendMessageQuilly, HandleResponseChunk ''b'', HandleResponseFinished,
              Edit ''c'', SendMessageQuilly] (MainWindow_quilly (Inr [''llama3''])))
     = ''c''"
proof -
  let ?s = "acts [Edit ''a'', SendMessageQuilly, HandleResponseChunk ''b'', HandleResponseFinished,
               Edit ''c'', SendMessageQuilly] (MainWindow_quilly (Inr [''llama3'']))"
  have m: "msgs ?s = [\<lparr>role = ''user'', content = ''a''\<rparr>, \<lparr>role = ''assistant'', content = ''b''\<rparr>,
        \<lparr>role = ''user'', content = ''c''\<rparr>]"
    by (simp add: acts_def send_message_quilly_eq handle_response_chunk_def
        handle_response_finished_def messages_append_def MainWindow_quilly_def
        MainWindow_fields_def load_models_def)
  from m get_last_user_message_scans_from_end
    [of ?s "[\<lparr>role = ''user'', content = ''a''\<rparr>, \<lparr>role = ''assistant'', content = ''b''\<rparr>]"
        "\<lparr>role = ''user'', content = ''c''\<rparr>" "[]"]
  show ?thesis by simp
qed

section \<open>What an action leaves alone\<close>

lemma perform_ai_analysis_eq:
  "\<not> (selection = None \<and> get_last_user_message s = []) \<Longrightarrow>
   perform_ai_analysis analysis_type selection s =
     s\<lparr>heap := (heap s)(messages s := trim (context_length s) (msgs s @ [\<lparr>role = ''user'', content = analysis_prompt analysis_type (case selection of Some selected \<Rightarrow> selected | None \<Rightarrow> get_last_user_message s)\<rparr>]),
                      next_ref s := trim (context_length s) (msgs s @ [\<lparr>role = ''user'', content = analysis_prompt analysis_type (case selection of Some selected \<Rightarrow> selected | None \<Rightarrow> get_last_user_message s)\<rparr>])),
       next_ref := Suc (next_ref s),
       thread := Some \<lparr>model_name = selected_model s, t_messages = next_ref s, isRunning = True\<rparr>,
       assistant_response := [],
       chat_display := chat_display s @ [Append (''<b>User:</b> '' @ analysis_prompt analysis_type (case selection of Some selected \<Rightarrow> selected | None \<Rightarrow> get_last_user_message s)), Append ''<b>Assistant:</b> '']\<rparr>"
  by (cases selection)
     (simp_all add: perform_ai_analysis_def start_thread_eq trim_messages_def messages_append_def
      display_message_def Let_def)

lemma perform_ai_analysis_none:
  "selection = None \<and> get_last_user_message s = [] \<Longrightarrow>
   perform_ai_analysis analysis_type selection s
     = s\<lparr>status_bar := ''Please select text or send a message first.''\<rparr>"
  by (simp add: perform_ai_analysis_def)

lemma act_keeps_worker:
  assumes "messages s < next_ref s" "r < next_ref s" "r \<noteq> messages s"
  shows "heap (act a s) r = heap s r \<and> messages (act a s) < next_ref (act a s)
       \<and> r < next_ref (act a s) \<and> r \<noteq> messages (act a s)"
proof (cases a)
  case SendMessage
  then show ?thesis using assms
    by (cases "input_field s = []") (simp_all add: send_message_eq, simp add: send_message_def)
next
  case SendMessageQuilly
  then show ?thesis using assms
    by (cases "input_field s = []") (simp_all add: send_message_quilly_eq, simp add: send_message_quilly_def)
next
  case (PerformAiAnalysis ty sel)
  then show ?thesis using assms
    by (cases "sel = None \<and> get_last_user_message s = []")
       (simp_all add: perform_ai_analysis_eq perform_ai_analysis_none)
next
  case StopChat
  then show ?thesis using assms by (simp add: stop_chat_fields)
next
  case RestartChat
  then show ?thesis using assms by (simp add: restart_chat_def stop_chat_fields)
qed (use assms in \<open>simp_all add: handle_response_chunk_def handle_response_finished_def
      messages_append_def handle_error_def model_changed_def update_context_length_def\<close>)

lemma acts_keep_worker:
  "messages s < next_ref s \<Longrightarrow> r < next_ref s \<Longrightarrow> r \<noteq> messages s \<Longrightarrow>
   heap (acts as s) r = heap s r"
proof (induction as arbitrary: s)
  case Nil
  then show ?case by (simp add: acts_def)
next
  case (Cons a as)
  have "heap (acts as (act a s)) r = heap (act a s) r"
    using Cons.IH [of "act a s"] act_keeps_worker [OF Cons.prems, of a] by simp
  then show ?case using act_keeps_worker [OF Cons.prems, of a] by (simp add: acts_def)
qed

lemma act_allocated:
  assumes "messages s < next_ref s"
  shows "messages (act a s) < next_ref (act a s)"
proof (cases a)
  case SendMessage
  then show ?thesis using assms
    by (cases "input_field s = []") (simp_all add: send_message_eq, simp add: send_message_def)
next
  case SendMessageQuilly
  then show ?thesis using assms
    by (cases "input_field s = []") (simp_all add: send_message_quilly_eq, simp add: send_message_quilly_def)
next
  case (PerformAiAnalysis ty sel)
  then show ?thesis using assms
    by (cases "sel = None \<and> get_last_user_message s = []")
       (simp_all add: perform_ai_analysis_eq perform_ai_analysis_none)
qed (use assms in \<open>simp_all add: handle_response_chunk_def handle_response_finished_def
      stop_chat_fields restart_chat_def messages_append_def handle_error_def model_changed_def
      update_context_length_def\<close>)

lemma acts_allocated: "messages s < next_ref s \<Longrightarrow> messages (acts as s) < next_ref (acts as s)"
  by (induction as arbitrary: s) (simp_all add: acts_def act_allocated)

lemma MainWindow_allocated:
  "messages (MainWindow listing) < next_ref (MainWindow listing)"
  "messages (MainWindow_quilly listing) < next_ref (MainWindow_quilly listing)"
  by (simp_all add: MainWindow_def MainWindow_quilly_def MainWindow_fields_def load_models_def
      split: sum.splits)

text \<open>
  C9. Let a send start a worker \<open>t\<close> in a state whose conversation list has been
  created (every state reached from the constructed window is so). What \<open>t\<close> sends to the
  model service is the model selected at the send and the conversation as the send left
  it. \<open>model_changed\<close> changes the selected model and nothing else; after it, and after any
  further actions on the window (appends of responses, later sends and their trimming,
  stops, model changes), the request of \<open>t\<close> is still the same. The next send uses the new
  model.
\<close>

theorem in_flight_worker_is_fixed:
  assumes allocated: "messages s < next_ref s"
    and prompt: "input_field s \<noteq> []"
    and worker: "thread (send_message s) = Some t"
  shows "request (heap (send_message s)) t = (selected_model s, msgs (send_message s))
       \<and> model_changed text (send_message s) = (send_message s)\<lparr>selected_model := text\<rparr>
       \<and> request (heap (acts later (model_changed text (send_message s)))) t
         = request (heap (send_message s)) t
       \<and> request (heap (acts later (send_message s))) t = request (heap (send_message s)) t
       \<and> (q \<noteq> [] \<longrightarrow>
            thread (send_message ((model_changed text (send_message s))\<lparr>input_field := q\<rparr>))
            = Some \<lparr>model_name = text, t_messages = Suc (next_ref s), isRunning = True\<rparr>)"
proof -
  let ?s1 = "send_message s"
  have t: "t = \<lparr>model_name = selected_model s, t_messages = next_ref s, isRunning = True\<rparr>"
    using prompt worker by (simp add: send_message_eq)
  have a: "messages ?s1 < next_ref ?s1" "t_messages t < next_ref ?s1" "t_messages t \<noteq> messages ?s1"
    using allocated prompt t by (simp_all add: send_message_eq)
  have r: "request (heap ?s1) t = (selected_model s, msgs ?s1)"
    using prompt t by (simp add: request_def send_message_eq)
  have m: "model_changed text ?s1 = ?s1\<lparr>selected_model := text\<rparr>"
    by (simp add: model_changed_def)
  have "heap (acts later (model_changed text ?s1)) (t_messages t) = heap (model_changed text ?s1) (t_messages t)"
    using a by (intro acts_keep_worker) (simp_all add: model_changed_def)
  then have l1: "request (heap (acts later (model_changed text ?s1))) t = request (heap ?s1) t"
    by (simp add: request_def model_changed_def)
  have "heap (acts later ?s1) (t_messages t) = heap ?s1 (t_messages t)"
    using a by (intro acts_keep_worker)
  then have l2: "request (heap (acts later ?s1)) t = request (heap ?s1) t"
    by (simp add: request_def)
  have n: "q \<noteq> [] \<longrightarrow>
            thread (send_message ((model_changed text ?s1)\<lparr>input_field := q\<rparr>))
            = Some \<lparr>model_name = text, t_messages = Suc (next_ref s), isRunning = True\<rparr>"
    using prompt by (simp add: send_message_eq model_changed_def)
  from r m l1 l2 n show ?thesis by blast
qed

theorem in_flight_worker_is_fixed_witness:
  "request
     (heap (acts [HandleResponseChunk ''Hi'', HandleResponseFinished, Edit ''more'', SendMessage]
        (model_changed ''mistral''
           (send_message ((MainWindow (Inr [''llama3'', ''mistral'']))\<lparr>input_field := ''hello''\<rparr>)))))
     \<lparr>model_name = ''llama3'', t_messages = 1, isRunning = True\<rparr>
   = (''llama3'', [\<lparr>role = ''user'', content = ''hello''\<rparr>])"
proof -
  let ?s = "(MainWindow (Inr [''llama3'', ''mistral'']))\<lparr>input_field := ''hello''\<rparr>"
  let ?t = "\<lparr>model_name = ''llama3'', t_messages = 1, isRunning = True\<rparr>"
  let ?later = "[HandleResponseChunk ''Hi'', HandleResponseFinished, Edit ''more'', SendMessage]"
  have a: "messages ?s < next_ref ?s" and b: "input_field ?s \<noteq> []"
    by (simp_all add: MainWindow_def MainWindow_fields_def load_models_def)
  have c: "thread (send_message ?s) = Some ?t"
    by (simp add: send_message_eq MainWindow_def MainWindow_fields_def load_models_def)
  note fixed = in_flight_worker_is_fixed [OF a b c, of "''mistral''" ?later "''again''"]
  from fixed have "request (heap (acts ?later (model_changed ''mistral'' (send_message ?s)))) ?t
      = request (heap (send_message ?s)) ?t"
    by blast
  also from fixed have "\<dots> = (selected_model ?s, msgs (send_message ?s))"
    by blast
  also have "\<dots> = (''llama3'', [\<lparr>role = ''user'', content = ''hello''\<rparr>])"
    by (simp add: send_message_eq MainWindow_def MainWindow_fields_def load_models_def
        trim_def trim_loop_stop)
  finally show ?thesis .
qed

section \<open>User messages are never empty\<close>

lemma MainWindow_msgs:
  "msgs (MainWindow listing) = []" "msgs (MainWindow_quilly listing) = []"
  by (simp_all add: MainWindow_def MainWindow_quilly_def MainWindow_fields_def load_models_def
      split: sum.splits)

lemma analysis_prompt_nonempty: "analysis_prompt ty text \<noteq> []"
  by (simp add: analysis_prompt_def)

lemma act_user_nonempty:
  assumes "\<forall>m\<in>set (msgs s). role m = ''user'' \<longrightarrow> content m \<noteq> []"
  shows "\<forall>m\<in>set (msgs (act a s)). role m = ''user'' \<longrightarrow> content m \<noteq> []"
proof (cases a)
  case SendMessage
  show ?thesis
  proof (cases "input_field s = []")
    case True
    with SendMessage assms show ?thesis by (simp add: send_message_def)
  next
    case False
    let ?ms = "msgs s @ [\<lparr>role = ''user'', content = input_field s\<rparr>]"
    have "msgs (send_message s) = trim (context_length s) ?ms"
      using False by (simp add: send_message_eq)
    moreover have "\<forall>m\<in>set ?ms. role m = ''user'' \<longrightarrow> content m \<noteq> []"
      using assms False by auto
    ultimately show ?thesis
      using SendMessage set_trim_subset [of "context_length s" ?ms] by auto
  qed
next
  case SendMessageQuilly
  then show ?thesis using assms
    by (cases "input_field s = []")
       (simp_all add: send_message_quilly_eq, simp add: send_message_quilly_def)
next
  case (PerformAiAnalysis ty sel)
  show ?thesis
  proof (cases "sel = None \<and> get_last_user_message s = []")
    case True
    with PerformAiAnalysis assms show ?thesis by (simp add: perform_ai_analysis_none)
  next
    case False
    let ?p = "analysis_prompt ty (case sel of Some selected \<Rightarrow> selected | None \<Rightarrow> get_last_user_message s)"
    let ?ms = "msgs s @ [\<lparr>role = ''user'', content = ?p\<rparr>]"
    have "msgs (perform_ai_analysis ty sel s) = trim (context_length s) ?ms"
      using False by (simp add: perform_ai_analysis_eq)
    moreover have "\<forall>m\<in>set ?ms. role m = ''user'' \<longrightarrow> content m \<noteq> []"
      using assms by (auto simp: analysis_prompt_nonempty)
    ultimately show ?thesis
      using PerformAiAnalysis set_trim_subset [of "context_length s" ?ms] by auto
  qed
qed (use assms in \<open>simp_all add: handle_response_chunk_def handle_response_finished_def
      stop_chat_fields restart_chat_def messages_append_def handle_error_def model_changed_def
      update_context_length_def\<close>)

lemma acts_user_nonempty:
  "\<forall>m\<in>set (msgs s). role m = ''user'' \<longrightarrow> content m \<noteq> [] \<Longrightarrow>
   \<forall>m\<in>set (msgs (acts as s)). role m = ''user'' \<longrightarrow> content m \<noteq> []"
proof (induction as arbitrary: s)
  case Nil
  then show ?case by (simp add: acts_def)
next
  case (Cons a as)
  from Cons.IH [OF act_user_nonempty [OF Cons.prems, of a]]
  show ?case by (simp add: acts_def)
qed

text \<open>
  Which actions can add a user message to the conversation: a send with a non-empty
  prompt, which adds that prompt, and the analysis request, which adds its analysis
  prompt. No other action adds one.
\<close>

lemma act_new_user_message:
  assumes "m \<in> set (msgs (act a s))" "role m = ''user''" "m \<notin> set (msgs s)"
  shows "((a = SendMessage \<or> a = SendMessageQuilly) \<and> input_field s \<noteq> []
            \<and> m = \<lparr>role = ''user'', content = input_field s\<rparr>)
       \<or> (\<exists>analysis_type selection text. a = PerformAiAnalysis analysis_type selection
            \<and> m = \<lparr>role = ''user'', content = analysis_prompt analysis_type text\<rparr>)"
proof (cases a)
  case SendMessage
  show ?thesis
  proof (cases "input_field s = []")
    case True
    with SendMessage assms show ?thesis by (simp add: send_message_def)
  next
    case False
    let ?ms = "msgs s @ [\<lparr>role = ''user'', content = input_field s\<rparr>]"
    have "msgs (send_message s) = trim (context_length s) ?ms"
      using False by (simp add: send_message_eq)
    then have "m \<in> set ?ms"
      using SendMessage assms(1) set_trim_subset [of "context_length s" ?ms] by auto
    then show ?thesis using SendMessage False assms(3) by auto
  qed
next
  case SendMessageQuilly
  show ?thesis
  proof (cases "input_field s = []")
    case True
    with SendMessageQuilly assms show ?thesis by (simp add: send_message_quilly_def)
  next
    case False
    have "msgs (send_message_quilly s) = msgs s @ [\<lparr>role = ''user'', content = input_field s\<rparr>]"
      using False by (simp add: send_message_quilly_eq)
    then show ?thesis using SendMessageQuilly False assms(1,3) by auto
  qed
next
  case (PerformAiAnalysis ty sel)
  show ?thesis
  proof (cases "sel = None \<and> get_last_user_message s = []")
    case True
    with PerformAiAnalysis assms show ?thesis by (simp add: perform_ai_analysis_none)
  next
    case False
    let ?text = "case sel of Some selected \<Rightarrow> selected | None \<Rightarrow> get_last_user_message s"
    let ?ms = "msgs s @ [\<lparr>role = ''user'', content = analysis_prompt ty ?text\<rparr>]"
    have "msgs (perform_ai_analysis ty sel s) = trim (context_length s) ?ms"
      using False by (simp add: perform_ai_analysis_eq)
    then have "m \<in> set ?ms"
      using PerformAiAnalysis assms(1) set_trim_subset [of "context_length s" ?ms] by auto
    then have "m = \<lparr>role = ''user'', content = analysis_prompt ty ?text\<rparr>"
      using assms(3) by auto
    then show ?thesis using PerformAiAnalysis by blast
  qed
qed (use assms in \<open>auto simp add: handle_response_chunk_def handle_response_finished_def
      stop_chat_fields restart_chat_def messages_append_def handle_error_def model_changed_def
      update_context_length_def\<close>)

text \<open>
  C10 (amended). In every state reached from a constructed window by any sequence of
  actions, every message of the conversation with role \<open>user\<close> has a non-empty content
  (a send appends a user message only for a non-empty prompt, and the one other action
  that appends a user message, the analysis request, appends a prompt that is never
  empty), so that \<open>get_last_user_message\<close> returns the empty string exactly when the
  conversation has no user message.
\<close>

theorem user_messages_nonempty:
  assumes "s = acts as (MainWindow listing) \<or> s = acts as (MainWindow_quilly listing)"
  shows "(\<forall>m\<in>set (msgs s). role m = ''user'' \<longrightarrow> content m \<noteq> [])
       \<and> (get_last_user_message s = [] \<longleftrightarrow> (\<forall>m\<in>set (msgs s). role m \<noteq> ''user''))"
proof -
  have inv: "\<forall>m\<in>set (msgs s). role m = ''user'' \<longrightarrow> content m \<noteq> []"
    using assms acts_user_nonempty [of "MainWindow listing" as]
      acts_user_nonempty [of "MainWindow_quilly listing" as]
    by (auto simp: MainWindow_msgs)
  then have "\<forall>m\<in>set (rev (msgs s)). role m = ''user'' \<longrightarrow> content m \<noteq> []" by simp
  from first_user_empty_iff [OF this] inv show ?thesis
    by (simp add: get_last_user_message_def)
qed

theorem user_messages_nonempty_witness:
  "get_last_user_message
     (acts [Edit ''a'', SendMessage, HandleResponseChunk ''b'', HandleResponseFinished,
            PerformAiAnalysis ''summary'' (Some ''b'')]
        (MainWindow (Inr [''llama3''])))
   \<noteq> []"
proof -
  let ?as = "[Edit ''a'', SendMessage, HandleResponseChunk ''b'', HandleResponseFinished,
            PerformAiAnalysis ''summary'' (Some ''b'')]"
  let ?s = "acts ?as (MainWindow (Inr [''llama3'']))"
  have "msgs ?s = [\<lparr>role = ''user'', content = ''a''\<rparr>, \<lparr>role = ''assistant'', content = ''b''\<rparr>,
                   \<lparr>role = ''user'', content = analysis_prompt ''summary'' ''b''\<rparr>]"
    by (simp add: acts_def send_message_eq handle_response_chunk_def
        handle_response_finished_def messages_append_def MainWindow_def
        MainWindow_fields_def load_models_def perform_ai_analysis_eq
        trim_def trim_loop_stop sum_len_def analysis_prompt_def)
  then have "\<not> (\<forall>m\<in>set (msgs ?s). role m \<noteq> ''user'')" by simp
  with user_messages_nonempty [of ?s ?as "Inr [''llama3'']"]
  show ?thesis by blast
qed

text \<open>
  C10 as stated says that no operation other than a send appends a user message. The
  analysis request of src/QtOllama-main-quilly/quilLlama.py does: after \<open>a\<close> has been
  sent, an analysis without a selection appends a second user message, the analysis
  prompt about \<open>a\<close>.
\<close>

theorem analysis_appends_user_message_counterexample:
  "msgs (acts [Edit ''a'', SendMessageQuilly] (MainWindow_quilly (Inr [''llama3''])))
     = [\<lparr>role = ''user'', content = ''a''\<rparr>]
   \<and> msgs (perform_ai_analysis ''summary'' None
             (acts [Edit ''a'', SendMessageQuilly] (MainWindow_quilly (Inr [''llama3'']))))
     = [\<lparr>role = ''user'', content = ''a''\<rparr>,
        \<lparr>role = ''user'', content = analysis_prompt ''summary'' ''a''\<rparr>]"
proof -
  let ?s = "acts [Edit ''a'', SendMessageQuilly] (MainWindow_quilly (Inr [''llama3'']))"
  have before: "msgs ?s = [\<lparr>role = ''user'', content = ''a''\<rparr>]"
    and ctx: "context_length ?s = 8192"
    by (simp_all add: acts_def send_message_quilly_eq MainWindow_quilly_def
        MainWindow_fields_def load_models_def)
  then have last: "get_last_user_message ?s = ''a''"
    by (simp add: get_last_user_message_def)
  then have "msgs (perform_ai_analysis ''summary'' None ?s)
      = trim 8192 [\<lparr>role = ''user'', content = ''a''\<rparr>,
                   \<lparr>role = ''user'', content = analysis_prompt ''summary'' ''a''\<rparr>]"
    using before ctx by (simp add: perform_ai_analysis_eq)
  also have "\<dots> = [\<lparr>role = ''user'', content = ''a''\<rparr>,
                   \<lparr>role = ''user'', content = analysis_prompt ''summary'' ''a''\<rparr>]"
    by (simp add: trim_def trim_loop_stop sum_len_def analysis_prompt_def)
  finally show ?thesis using before by simp
qed

end
